theory Spec2Isabelle
  imports
    Main
    "HOL-Library.Char_ord"
    "HOL-Library.List_Lexorder"
    "HOL-Library.Sublist"
    "HOL-Library.AList"
begin

section \<open>The static site builder of \<^verbatim>\<open>scripts/build.py\<close>\<close>

text \<open>
  The development embeds the class \<^verbatim>\<open>SiteBuilder\<close> of \<^verbatim>\<open>scripts/build.py\<close>: the two
  loaders with their publish gate and sort, the template renderer, the page generator,
  the sitemap and the RSS feed. Python values are modelled as follows.

  \<^item> A \<^verbatim>\<open>str\<close> is a \<^typ>\<open>string\<close>; characters are compared by their code
    (\<^verbatim>\<open>Char_ord\<close>) and strings lexicographically (\<^verbatim>\<open>List_Lexorder\<close>), which is Python's
    order on \<^verbatim>\<open>str\<close>. Case conversion and the character classes act on ASCII.
  \<^item> A \<^verbatim>\<open>dict\<close> is an association list with the keys in insertion order; a row of
    \<^verbatim>\<open>csv.DictReader\<close> is a dict from column names to strings, as the reader builds it
    for a line that has a field for every column (for a shorter line the reader stores
    \<^verbatim>\<open>None\<close>, which is no string: such rows are not among the inputs here).
  \<^item> An exception is a value of type \<open>error\<close>, and a method that can raise returns
    \<open>error + result\<close>.
  \<^item> The clock, the CSV files, the template directory and the output directory are
    arguments of the methods that read or write them.
\<close>

subsection \<open>Strings\<close>

definition is_ascii_upper :: "char \<Rightarrow> bool" where
  "is_ascii_upper c = (CHR ''A'' \<le> c \<and> c \<le> CHR ''Z'')"

definition lower_char :: "char \<Rightarrow> char" where
  "lower_char c = (if is_ascii_upper c then char_of (of_char c + (32::nat)) else c)"

text \<open>\<^verbatim>\<open>s.lower()\<close>\<close>

definition py_lower :: "string \<Rightarrow> string" where
  "py_lower s = map lower_char s"

text \<open>The character class \<^verbatim>\<open>[a-z0-9]\<close>.\<close>

definition slug_char :: "char \<Rightarrow> bool" where
  "slug_char c =
     ((CHR ''a'' \<le> c \<and> c \<le> CHR ''z'') \<or> (CHR ''0'' \<le> c \<and> c \<le> CHR ''9''))"

text \<open>
  \<^verbatim>\<open>re.sub(r'[^a-z0-9]+', '-', s)\<close>: scanning from the left, a character of the class is
  copied; at a character outside the class the greedy \<^verbatim>\<open>+\<close> takes the whole run of such
  characters, and the run is replaced by one hyphen.
\<close>

function re_sub_runs :: "string \<Rightarrow> string" where
  "re_sub_runs [] = []"
| "re_sub_runs (c # cs) =
     (if slug_char c then c # re_sub_runs cs
      else CHR ''-'' # re_sub_runs (dropWhile (\<lambda>x. \<not> slug_char x) cs))"
  by pat_completeness auto
termination
  by (relation "measure length") (auto simp: less_Suc_eq_le length_dropWhile_le)

text \<open>\<^verbatim>\<open>s.strip(h)\<close> for a single character \<open>h\<close>.\<close>

definition py_strip :: "char \<Rightarrow> string \<Rightarrow> string" where
  "py_strip h s = rev (dropWhile (\<lambda>x. x = h) (rev (dropWhile (\<lambda>x. x = h) s)))"

text \<open>
  The slug of a title. The source has no function of this name: it writes the expression
  \<^verbatim>\<open>re.sub(r'[^a-z0-9]+', '-', title.lower()).strip('-')\<close> in five places (lines 123, 137,
  151, 157 and 187), each time with the same text.
\<close>

definition slugify :: "string \<Rightarrow> string" where
  "slugify title = py_strip CHR ''-'' (re_sub_runs (py_lower title))"

text \<open>
  \<^verbatim>\<open>s.replace(old, new)\<close>: the occurrences of \<open>old\<close> are found from the left and do not
  overlap; with an empty \<open>old\<close>, \<open>new\<close> is put before every character and at the end.
\<close>

function py_replace :: "string \<Rightarrow> string \<Rightarrow> string \<Rightarrow> string" where
  "py_replace [] old new = (if old = [] then new else [])"
| "py_replace (c # cs) old new =
     (if old = [] then new @ c # py_replace cs old new
      else if prefix old (c # cs) then new @ py_replace (drop (length old) (c # cs)) old new
      else c # py_replace cs old new)"
  by pat_completeness auto
termination
  by (relation "measure (\<lambda>(s, old, new). length s)") (auto simp: neq_Nil_conv)

declare py_replace.simps [simp del]

subsection \<open>Dictionaries and values\<close>

type_synonym 'v dict = "(string \<times> 'v) list"

type_synonym row = "string dict"

text \<open>\<^verbatim>\<open>d.get(k, default)\<close>\<close>

definition dict_get :: "'v dict \<Rightarrow> string \<Rightarrow> 'v \<Rightarrow> 'v" where
  "dict_get d k dflt = (case map_of d k of Some v \<Rightarrow> v | None \<Rightarrow> dflt)"

text \<open>
  \<^verbatim>\<open>d.update(other)\<close>: the items of \<open>other\<close> are stored one after the other; storing under a
  key that is present overwrites the value where it stands, storing under a new key appends
  the item (\<^const>\<open>AList.update\<close>).
\<close>

definition dict_update :: "'v dict \<Rightarrow> 'v dict \<Rightarrow> 'v dict" where
  "dict_update d other = fold (\<lambda>(k, v) acc. AList.update k v acc) other d"

text \<open>
  A value of the site configuration or of a render context. The program uses such a value
  in two ways only: it takes its string form (\<^verbatim>\<open>str(value)\<close>, also inside an f-string), or
  it stores it unchanged. A value that is not a \<^verbatim>\<open>str\<close> is therefore represented by its string
  form: \<open>PyObj ''9.99''\<close> is the float \<^verbatim>\<open>9.99\<close>.
\<close>

datatype pyval = PyStr string | PyObj string

fun py_str :: "pyval \<Rightarrow> string" where
  "py_str (PyStr s) = s"
| "py_str (PyObj s) = s"



subsection \<open>Dates\<close>

datatype date = Date (year: nat) (month: nat) (day: nat)

text \<open>\<^verbatim>\<open>a < b\<close> on \<^verbatim>\<open>datetime.date\<close>: by year, then month, then day.\<close>

definition date_less :: "date \<Rightarrow> date \<Rightarrow> bool" where
  "date_less a b =
     (year a < year b \<or> (year a = year b \<and>
       (month a < month b \<or> (month a = month b \<and> day a < day b))))"

definition is_digit :: "char \<Rightarrow> bool" where
  "is_digit c = (CHR ''0'' \<le> c \<and> c \<le> CHR ''9'')"

definition digit_val :: "char \<Rightarrow> nat" where
  "digit_val c = of_char c - 48"

definition leap_year :: "nat \<Rightarrow> bool" where
  "leap_year y = (y mod 4 = 0 \<and> (y mod 100 \<noteq> 0 \<or> y mod 400 = 0))"

definition days_in_month :: "nat \<Rightarrow> nat \<Rightarrow> nat" where
  "days_in_month y m =
     (if m = 2 then (if leap_year y then 29 else 28)
      else if m = 4 \<or> m = 6 \<or> m = 9 \<or> m = 11 then 30 else 31)"

text \<open>The directive \<^verbatim>\<open>%m\<close> of \<^verbatim>\<open>strptime\<close>: \<^verbatim>\<open>1[0-2]|0[1-9]|[1-9]\<close>.\<close>

fun parse_month :: "string \<Rightarrow> nat option" where
  "parse_month [a] =
     (if CHR ''1'' \<le> a \<and> a \<le> CHR ''9'' then Some (digit_val a) else None)"
| "parse_month [a, b] =
     (if a = CHR ''1'' \<and> CHR ''0'' \<le> b \<and> b \<le> CHR ''2'' then Some (10 + digit_val b)
      else if a = CHR ''0'' \<and> CHR ''1'' \<le> b \<and> b \<le> CHR ''9'' then Some (digit_val b)
      else None)"
| "parse_month _ = None"

text \<open>The directive \<^verbatim>\<open>%d\<close>: \<^verbatim>\<open>3[0-1]|[1-2]\d|0[1-9]|[1-9]| [1-9]\<close>.\<close>

fun parse_day :: "string \<Rightarrow> nat option" where
  "parse_day [a] =
     (if CHR ''1'' \<le> a \<and> a \<le> CHR ''9'' then Some (digit_val a) else None)"
| "parse_day [a, b] =
     (if a = CHR ''3'' \<and> CHR ''0'' \<le> b \<and> b \<le> CHR ''1'' then Some (30 + digit_val b)
      else if CHR ''1'' \<le> a \<and> a \<le> CHR ''2'' \<and> is_digit b
        then Some (10 * digit_val a + digit_val b)
      else if a = CHR ''0'' \<and> CHR ''1'' \<le> b \<and> b \<le> CHR ''9'' then Some (digit_val b)
      else if a = CHR '' '' \<and> CHR ''1'' \<le> b \<and> b \<le> CHR ''9'' then Some (digit_val b)
      else None)"
| "parse_day _ = None"

text \<open>
  \<^verbatim>\<open>datetime.strptime(s, '%Y-%m-%d').date()\<close>, with \<open>None\<close> for \<^verbatim>\<open>ValueError\<close>. The whole of
  \<open>s\<close> must be four digits, a hyphen, a month, a hyphen and a day, and the three numbers
  must be a date of the calendar (the year at least 1, the day within the month).
\<close>

definition strptime_ymd :: "string \<Rightarrow> date option" where
  "strptime_ymd s =
     (let y = take 4 s; r = drop 4 s in
      if length y = 4 \<and> list_all is_digit y \<and> r \<noteq> [] \<and> hd r = CHR ''-'' then
        (let m = takeWhile (\<lambda>c. c \<noteq> CHR ''-'') (tl r);
             r' = dropWhile (\<lambda>c. c \<noteq> CHR ''-'') (tl r) in
         case r' of
           [] \<Rightarrow> None
         | _ # d \<Rightarrow>
             (case parse_month m of
                None \<Rightarrow> None
              | Some mm \<Rightarrow>
                  (case parse_day d of
                     None \<Rightarrow> None
                   | Some dd \<Rightarrow>
                       (let yy = foldl (\<lambda>n c. 10 * n + digit_val c) 0 y in
                        if 1 \<le> yy \<and> dd \<le> days_in_month yy mm
                        then Some (Date yy mm dd) else None))))
      else None)"

definition digit_char :: "nat \<Rightarrow> char" where
  "digit_char n = char_of (48 + n mod 10)"

text \<open>\<^verbatim>\<open>d.strftime("%Y-%m-%d")\<close>, for the years 1000 to 9999.\<close>

definition strftime_ymd :: "date \<Rightarrow> string" where
  "strftime_ymd d =
     [digit_char (year d div 1000), digit_char (year d div 100),
      digit_char (year d div 10), digit_char (year d), CHR ''-'',
      digit_char (month d div 10), digit_char (month d), CHR ''-'',
      digit_char (day d div 10), digit_char (day d)]"

subsection \<open>The builder and its loaders\<close>

datatype error = OSError | KeyError string

record SiteBuilder =
  site_config :: "pyval dict"
  products :: "row list"
  posts :: "row list"

text \<open>\<^verbatim>\<open>__init__\<close>\<close>

definition SiteBuilder_init :: SiteBuilder where
  "SiteBuilder_init = \<lparr>site_config = [], products = [], posts = []\<rparr>"

text \<open>
  The loop over the rows of the reader, with the list that the rows are appended to. The
  loops of \<^verbatim>\<open>load_products\<close> (lines 38 to 52) and of \<^verbatim>\<open>load_posts\<close> (lines 63 to 77)
  have the same text. A row whose lower-cased status is not \<^verbatim>\<open>published\<close> is skipped; a row
  with a non-empty \<^verbatim>\<open>publish_date\<close> that parses to a date after \<open>today\<close> is skipped; a
  \<^verbatim>\<open>ValueError\<close> of the parser is caught and passed over, so that the row is appended.
\<close>

fun load_rows :: "date \<Rightarrow> row list \<Rightarrow> row list \<Rightarrow> row list" where
  "load_rows today [] acc = acc"
| "load_rows today (row # rows) acc =
     (if py_lower (dict_get row ''status'' '''') \<noteq> ''published'' then load_rows today rows acc
      else
        (case map_of row ''publish_date'' of
           None \<Rightarrow> load_rows today rows (acc @ [row])
         | Some pd \<Rightarrow>
             if pd = [] then load_rows today rows (acc @ [row])
             else
               (case strptime_ymd pd of
                  Some publish_date \<Rightarrow>
                    if date_less today publish_date then load_rows today rows acc
                    else load_rows today rows (acc @ [row])
                | None \<Rightarrow> load_rows today rows (acc @ [row]))))"

text \<open>
  \<^verbatim>\<open>xs.sort(key=..., reverse=True)\<close> on the key \<^verbatim>\<open>x.get('publish_date', '')\<close>. The sort of
  Python is stable also when reversed: it reverses the list, sorts it in ascending order
  and reverses the result.
\<close>

definition sort_key_desc :: "row \<Rightarrow> string" where
  "sort_key_desc x = dict_get x ''publish_date'' ''''"

definition py_sort_reverse :: "row list \<Rightarrow> row list" where
  "py_sort_reverse xs = rev (sort_key sort_key_desc (rev xs))"

text \<open>
  The file that a loader opens is given by what reading it yields: \<open>None\<close> when it cannot
  be opened or read (\<^verbatim>\<open>open\<close> or the reader raises), otherwise its rows in order.
\<close>

definition load_products :: "SiteBuilder \<Rightarrow> date \<Rightarrow> row list option \<Rightarrow> error + SiteBuilder" where
  "load_products self today products_csv =
     (case products_csv of
        None \<Rightarrow> Inl OSError
      | Some rows \<Rightarrow>
          Inr (self\<lparr>products := py_sort_reverse (load_rows today rows (products self))\<rparr>))"

definition load_posts :: "SiteBuilder \<Rightarrow> date \<Rightarrow> row list option \<Rightarrow> error + SiteBuilder" where
  "load_posts self today posts_csv =
     (case posts_csv of
        None \<Rightarrow> Inl OSError
      | Some rows \<Rightarrow>
          Inr (self\<lparr>posts := py_sort_reverse (load_rows today rows (posts self))\<rparr>))"

subsection \<open>Templates\<close>

definition placeholder :: "string \<Rightarrow> string" where
  "placeholder key = ''{{ '' @ key @ '' }}''"

text \<open>
  \<^verbatim>\<open>render_template\<close> reads the template (a missing file raises before anything else
  happens), stores the items of the site configuration into the context of the caller, and
  replaces the placeholder of each key of the context in turn, in the order of the
  context. It returns the text; the model returns with it the context as the call leaves
  it and the builder.
\<close>

definition render_template ::
  "SiteBuilder \<Rightarrow> (string \<rightharpoonup> string) \<Rightarrow> string \<Rightarrow> pyval dict
     \<Rightarrow> error + (string \<times> pyval dict \<times> SiteBuilder)" where
  "render_template self templates template_name context =
     (case templates template_name of
        None \<Rightarrow> Inl OSError
      | Some content \<Rightarrow>
          (let context' = dict_update context (site_config self) in
           Inr (fold (\<lambda>(key, v) content. py_replace content (placeholder key) (py_str v))
                  context' content,
                context', self)))"

subsection \<open>Pages\<close>



subsection \<open>Sitemap and feed\<close>

text \<open>
  The documents are modelled as the element trees that the methods build, in the order of
  the elements; their serialisation by \<^verbatim>\<open>ElementTree.write\<close> is not part of the model.
\<close>

record url_entry =
  loc :: pyval
  priority :: string
  changefreq :: string
  lastmod :: string

text \<open>
  \<^verbatim>\<open>add_sitemap_url\<close> reads the clock itself, once in every call. \<open>now k\<close> is the date that
  the call reads which finds \<open>k\<close> entries in the sitemap.
\<close>

definition add_sitemap_url ::
  "(nat \<Rightarrow> date) \<Rightarrow> url_entry list \<Rightarrow> pyval \<Rightarrow> string \<Rightarrow> string \<Rightarrow> url_entry list" where
  "add_sitemap_url now urlset l p c =
     urlset @ [\<lparr>loc = l, priority = p, changefreq = c,
                lastmod = strftime_ymd (now (length urlset))\<rparr>]"

text \<open>
  The loops of \<^verbatim>\<open>generate_sitemap\<close> over the products (lines 150 to 153) and over the posts
  (lines 156 to 159), which differ in the directory, the priority and the frequency. The
  slug is computed first, then the base URL is read.
\<close>

fun sitemap_urls ::
  "(nat \<Rightarrow> date) \<Rightarrow> pyval dict \<Rightarrow> string \<Rightarrow> string \<Rightarrow> string \<Rightarrow> row list \<Rightarrow> url_entry list
     \<Rightarrow> error + url_entry list" where
  "sitemap_urls now config dir p c [] urlset = Inr urlset"
| "sitemap_urls now config dir p c (item # items) urlset =
     (case map_of item ''title'' of
        None \<Rightarrow> Inl (KeyError ''title'')
      | Some title \<Rightarrow>
          (case map_of config ''base_url'' of
             None \<Rightarrow> Inl (KeyError ''base_url'')
           | Some base \<Rightarrow>
               sitemap_urls now config dir p c items
                 (add_sitemap_url now urlset
                    (PyStr (py_str base @ ''/'' @ dir @ ''/'' @ slugify title @ ''.html'')) p c)))"

definition generate_sitemap :: "(nat \<Rightarrow> date) \<Rightarrow> SiteBuilder \<Rightarrow> error + url_entry list" where
  "generate_sitemap now self =
     (case map_of (site_config self) ''base_url'' of
        None \<Rightarrow> Inl (KeyError ''base_url'')
      | Some base \<Rightarrow>
          (case sitemap_urls now (site_config self) ''products'' ''0.8'' ''weekly''
                  (products self) (add_sitemap_url now [] base ''1.0'' ''daily'') of
             Inl e \<Rightarrow> Inl e
           | Inr urlset \<Rightarrow>
               sitemap_urls now (site_config self) ''blog'' ''0.7'' ''monthly''
                 (posts self) urlset))"

record rss_item =
  item_title :: string
  item_description :: string
  item_link :: string
  item_pubDate :: string

record rss_channel =
  channel_title :: pyval
  channel_description :: pyval
  channel_link :: pyval
  channel_items :: "rss_item list"

text \<open>The loop of \<^verbatim>\<open>generate_rss\<close> over \<^verbatim>\<open>self.posts[:10]\<close> (lines 183 to 189).\<close>

fun rss_items :: "pyval dict \<Rightarrow> row list \<Rightarrow> rss_item list \<Rightarrow> error + rss_item list" where
  "rss_items config [] items = Inr items"
| "rss_items config (post # rest) items =
     (case map_of post ''title'' of
        None \<Rightarrow> Inl (KeyError ''title'')
      | Some title \<Rightarrow>
          (case map_of config ''base_url'' of
             None \<Rightarrow> Inl (KeyError ''base_url'')
           | Some base \<Rightarrow>
               rss_items config rest
                 (items @
                  [\<lparr>item_title = title,
                    item_description = dict_get post ''excerpt'' '''',
                    item_link = py_str base @ ''/blog/'' @ slugify title @ ''.html'',
                    item_pubDate = dict_get post ''publish_date'' ''''\<rparr>])))"

definition generate_rss :: "SiteBuilder \<Rightarrow> error + rss_channel" where
  "generate_rss self =
     (case map_of (site_config self) ''base_url'' of
        None \<Rightarrow> Inl (KeyError ''base_url'')
      | Some base \<Rightarrow>
          (case rss_items (site_config self) (take 10 (posts self)) [] of
             Inl e \<Rightarrow> Inl e
           | Inr items \<Rightarrow>
               Inr \<lparr>channel_title = dict_get (site_config self) ''title'' (PyStr ''''),
                    channel_description = dict_get (site_config self) ''description'' (PyStr ''''),
                    channel_link = base,
                    channel_items = items\<rparr>))"

subsection \<open>Definitions used to state the properties\<close>

text \<open>
  The maximal runs of a string: each run is a longest stretch of characters that are all
  inside or all outside the class \<^verbatim>\<open>[a-z0-9]\<close>.
\<close>

function runs :: "string \<Rightarrow> string list" where
  "runs [] = []"
| "runs (c # cs) =
     (c # takeWhile (\<lambda>x. slug_char x = slug_char c) cs)
       # runs (dropWhile (\<lambda>x. slug_char x = slug_char c) cs)"
  by pat_completeness auto
termination
  by (relation "measure length") (auto simp: less_Suc_eq_le length_dropWhile_le)

text \<open>
  The slug as the specification words it: lower-case the title, replace every maximal run
  of characters outside \<^verbatim>\<open>[a-z0-9]\<close> by one hyphen, strip the hyphens at both ends.
\<close>

definition spec_slugify :: "string \<Rightarrow> string" where
  "spec_slugify title =
     py_strip CHR ''-''
       (concat (map (\<lambda>r. if slug_char (hd r) then r else ''-'') (runs (py_lower title))))"

text \<open>\<^verbatim>\<open>a <= b\<close> on dates.\<close>

definition date_le :: "date \<Rightarrow> date \<Rightarrow> bool" where
  "date_le a b = (a = b \<or> date_less a b)"

text \<open>
  The publish gate as the specification words it: the status, compared without regard to
  case, is \<^verbatim>\<open>published\<close>, and the publish date is absent, or empty, or does not parse, or
  parses to a date that is not after today.
\<close>

definition publish_gate :: "date \<Rightarrow> row \<Rightarrow> bool" where
  "publish_gate today row =
     (py_lower (dict_get row ''status'' '''') = ''published'' \<and>
      (case map_of row ''publish_date'' of
         None \<Rightarrow> True
       | Some pd \<Rightarrow>
           pd = [] \<or> (case strptime_ymd pd of None \<Rightarrow> True | Some d \<Rightarrow> date_le d today)))"

text \<open>Rows of a content source, used as a concrete input.\<close>

definition example_rows :: "row list" where
  "example_rows =
     [[(''title'', ''a''), (''status'', ''Published'')],
      [(''title'', ''b''), (''status'', ''published''), (''publish_date'', ''2024-07-01'')],
      [(''title'', ''c''), (''status'', ''PUBLISHED''), (''publish_date'', ''next week'')],
      [(''title'', ''d''), (''status'', ''draft''), (''publish_date'', ''2023-01-01'')],
      [(''title'', ''e''), (''status'', ''published''), (''publish_date'', ''2024-06-01'')]]"

text \<open>
  The URL of the detail page of a record below a base URL: \<^verbatim>\<open><base>/<dir>/<slug>.html\<close>, the
  slug being that of the record's title.
\<close>

definition detail_url :: "pyval \<Rightarrow> string \<Rightarrow> row \<Rightarrow> string" where
  "detail_url base dir r =
     py_str base @ ''/'' @ dir @ ''/'' @ slugify (dict_get r ''title'' '''') @ ''.html''"

text \<open>The row has a column \<^verbatim>\<open>title\<close>, so that \<^verbatim>\<open>row['title']\<close> does not raise.\<close>

definition has_title :: "row \<Rightarrow> bool" where
  "has_title r = (map_of r ''title'' \<noteq> None)"


text \<open>The item of the feed for a post, as the specification lists its four elements.\<close>

definition spec_rss_item :: "pyval \<Rightarrow> row \<Rightarrow> rss_item" where
  "spec_rss_item base post =
     \<lparr>item_title = dict_get post ''title'' '''',
      item_description = dict_get post ''excerpt'' '''',
      item_link = detail_url base ''blog'' post,
      item_pubDate = dict_get post ''publish_date'' ''''\<rparr>"












text \<open>A builder whose configuration has the key \<^verbatim>\<open>title\<close>, as a concrete input.\<close>

definition collision_builder :: SiteBuilder where
  "collision_builder = \<lparr>site_config = [(''title'', PyStr ''Site'')], products = [], posts = []\<rparr>"

section \<open>Verification\<close>

subsection \<open>Slugs\<close>

lemma re_sub_runs_append:
  "list_all slug_char xs \<Longrightarrow> re_sub_runs (xs @ ys) = xs @ re_sub_runs ys"
  by (induction xs) auto

lemma re_sub_runs_takeWhile:
  "re_sub_runs cs = takeWhile slug_char cs @ re_sub_runs (dropWhile slug_char cs)"
proof -
  have "list_all slug_char (takeWhile slug_char cs)"
    by (induction cs) auto
  from re_sub_runs_append [OF this, of "dropWhile slug_char cs"] show ?thesis
    by simp
qed

lemma re_sub_runs_runs:
  "re_sub_runs s = concat (map (\<lambda>r. if slug_char (hd r) then r else ''-'') (runs s))"
proof (induction s rule: runs.induct)
  case 1
  show ?case by simp
next
  case (2 c cs)
  show ?case
  proof (cases "slug_char c")
    case True
    then have eq: "(\<lambda>x. slug_char x = slug_char c) = slug_char" by auto
    from True 2 show ?thesis
      using re_sub_runs_takeWhile [of cs] by (simp add: eq)
  next
    case False
    then have eq: "(\<lambda>x. slug_char x = slug_char c) = (\<lambda>x. \<not> slug_char x)" by auto
    from False 2 show ?thesis
      by (simp add: eq)
  qed
qed

text \<open>
  C3. The slug is a total function of the title (the definition terminates on every
  string), and it is the specification's algorithm: the lower-cased title with every
  maximal run of characters outside \<^verbatim>\<open>[a-z0-9]\<close> replaced by one hyphen and the hyphens at
  both ends stripped. On the three titles of the specification it gives \<^verbatim>\<open>hello-world\<close>,
  the empty string and \<^verbatim>\<open>a-b\<close>.
\<close>

theorem C3_slugify_spec:
  "slugify title = spec_slugify title
   \<and> slugify ''Hello, World!'' = ''hello-world''
   \<and> slugify '''' = ''''
   \<and> slugify ''  A -- B  '' = ''a-b''"
proof -
  have "slugify title = spec_slugify title"
    by (simp add: slugify_def spec_slugify_def re_sub_runs_runs)
  moreover have "slugify ''Hello, World!'' = ''hello-world''" by code_simp
  moreover have "slugify '''' = ''''" by code_simp
  moreover have "slugify ''  A -- B  '' = ''a-b''" by code_simp
  ultimately show ?thesis by simp
qed

subsection \<open>Loading, the publish gate and the sort\<close>

lemma date_le_iff: "date_le d today \<longleftrightarrow> \<not> date_less today d"
  by (cases d; cases today) (auto simp: date_le_def date_less_def)

lemma load_rows_filter: "load_rows today rows acc = acc @ filter (publish_gate today) rows"
  by (induction rows arbitrary: acc)
     (auto simp: publish_gate_def date_le_iff split: option.splits)



lemma load_products_example:
  "load_products SiteBuilder_init (Date 2024 6 1) (Some example_rows) =
     Inr \<lparr>site_config = [],
          products =
            [[(''title'', ''c''), (''status'', ''PUBLISHED''), (''publish_date'', ''next week'')],
             [(''title'', ''e''), (''status'', ''published''), (''publish_date'', ''2024-06-01'')],
             [(''title'', ''a''), (''status'', ''Published'')]],
          posts = []\<rparr>"
  by code_simp



lemma sorted_desc_py_sort_reverse:
  "sorted (rev (map sort_key_desc (py_sort_reverse xs)))"
  by (simp add: py_sort_reverse_def rev_map)

lemma stable_py_sort_reverse:
  "filter (\<lambda>r. sort_key_desc r = k) (py_sort_reverse xs) = filter (\<lambda>r. sort_key_desc r = k) xs"
proof -
  have "filter (\<lambda>r. sort_key_desc r = k) (sort_key sort_key_desc (rev xs))
      = filter (\<lambda>r. sort_key_desc r = k) (rev xs)"
    by (rule sort_key_stable)
  then show ?thesis
    by (simp add: py_sort_reverse_def rev_filter [symmetric])
qed

lemma sorted_desc_empty_last:
  "sorted (rev (map f xs)) \<Longrightarrow>
     xs = filter (\<lambda>r. f r \<noteq> ([]::string)) xs @ filter (\<lambda>r. f r = []) xs"
proof (induction xs)
  case Nil
  show ?case by simp
next
  case (Cons x xs)
  from Cons.prems have sorted_tl: "sorted (rev (map f xs))"
    and le: "\<forall>y\<in>set xs. f y \<le> f x"
    by (auto simp: sorted_append)
  show ?case
  proof (cases "f x = []")
    case True
    with le have "\<forall>y\<in>set xs. f y = []" by simp
    then have "filter (\<lambda>r. f r \<noteq> []) xs = []" and "filter (\<lambda>r. f r = []) xs = xs"
      by (simp_all add: filter_empty_conv filter_id_conv)
    with True show ?thesis by simp
  next
    case False
    with Cons.IH [OF sorted_tl] show ?thesis by simp
  qed
qed

text \<open>
  C4. After loading, a collection is in descending order of the raw string
  \<^verbatim>\<open>publish_date\<close>, a missing one counting as the empty string; the order is that of
  strings, not of the calendar. The records whose key is empty stand after all the
  others, and the records of any one key stand in the order of their rows in the source.
\<close>

theorem C4_sorted_descending:
  "(load_products self today (Some rows) = Inr self' \<longrightarrow> products self = [] \<longrightarrow>
      sorted (rev (map sort_key_desc (products self')))
      \<and> products self' = filter (\<lambda>r. sort_key_desc r \<noteq> []) (products self')
                          @ filter (\<lambda>r. sort_key_desc r = []) (products self')
      \<and> filter (\<lambda>r. sort_key_desc r = k) (products self')
          = filter (\<lambda>r. sort_key_desc r = k) (filter (publish_gate today) rows))
   \<and> (load_posts self today (Some rows) = Inr self' \<longrightarrow> posts self = [] \<longrightarrow>
      sorted (rev (map sort_key_desc (posts self')))
      \<and> posts self' = filter (\<lambda>r. sort_key_desc r \<noteq> []) (posts self')
                          @ filter (\<lambda>r. sort_key_desc r = []) (posts self')
      \<and> filter (\<lambda>r. sort_key_desc r = k) (posts self')
          = filter (\<lambda>r. sort_key_desc r = k) (filter (publish_gate today) rows))"
proof -
  let ?l = "py_sort_reverse (filter (publish_gate today) rows)"
  have "sorted (rev (map sort_key_desc ?l))"
    by (rule sorted_desc_py_sort_reverse)
  moreover from this
  have "?l = filter (\<lambda>r. sort_key_desc r \<noteq> []) ?l @ filter (\<lambda>r. sort_key_desc r = []) ?l"
    by (rule sorted_desc_empty_last)
  moreover have "filter (\<lambda>r. sort_key_desc r = k) ?l
      = filter (\<lambda>r. sort_key_desc r = k) (filter (publish_gate today) rows)"
    by (rule stable_py_sort_reverse)
  ultimately show ?thesis
    by (auto simp: load_products_def load_posts_def load_rows_filter)
qed

theorem C4_witness:
  "sorted (rev (map sort_key_desc
     [[(''title'', ''c''), (''status'', ''PUBLISHED''), (''publish_date'', ''next week'')],
      [(''title'', ''e''), (''status'', ''published''), (''publish_date'', ''2024-06-01'')],
      [(''title'', ''a''), (''status'', ''Published'')]]))
   \<and> py_sort_reverse
         [[(''publish_date'', ''2024-01-10'')], [(''publish_date'', ''2024-1-5'')]]
       = [[(''publish_date'', ''2024-1-5'')], [(''publish_date'', ''2024-01-10'')]]"
proof -
  have empty: "products SiteBuilder_init = []"
    by (simp add: SiteBuilder_init_def)
  from C4_sorted_descending [THEN conjunct1, rule_format, OF load_products_example empty,
      THEN conjunct1]
  have "sorted (rev (map sort_key_desc
     [[(''title'', ''c''), (''status'', ''PUBLISHED''), (''publish_date'', ''next week'')],
      [(''title'', ''e''), (''status'', ''published''), (''publish_date'', ''2024-06-01'')],
      [(''title'', ''a''), (''status'', ''Published'')]]))"
    by simp
  moreover have "py_sort_reverse
         [[(''publish_date'', ''2024-01-10'')], [(''publish_date'', ''2024-1-5'')]]
       = [[(''publish_date'', ''2024-1-5'')], [(''publish_date'', ''2024-01-10'')]]"
    by code_simp
  ultimately show ?thesis
    by (rule conjI)
qed



subsection \<open>The sitemap\<close>

lemma sitemap_urls_closed:
  assumes "map_of config ''base_url'' = Some base" and "list_all has_title items"
  shows "sitemap_urls now config dir p c items urlset =
     Inr (urlset @ map (\<lambda>(k, r). \<lparr>loc = PyStr (detail_url base dir r), priority = p,
                                    changefreq = c, lastmod = strftime_ymd (now k)\<rparr>)
                     (enumerate (length urlset) items))"
  using assms(2)
proof (induction items arbitrary: urlset)
  case Nil
  show ?case by simp
next
  case (Cons r items)
  from Cons.prems have "has_title r" and rest: "list_all has_title items"
    by simp_all
  then obtain t where t: "map_of r ''title'' = Some t"
    by (auto simp: has_title_def)
  show ?case
    using Cons.IH [OF rest, of "add_sitemap_url now urlset (PyStr (detail_url base dir r)) p c"]
    by (simp add: t assms(1) detail_url_def dict_get_def add_sitemap_url_def)
qed

lemma sitemap_urls_Inr_titles:
  "sitemap_urls now config dir p c items urlset = Inr out \<Longrightarrow> list_all has_title items"
  by (induction items arbitrary: urlset) (auto simp: has_title_def split: option.splits)


lemma map_enumerate_snd:
  "map (\<lambda>z. g (snd z)) (enumerate a xs) = map g xs"
  by (induction xs arbitrary: a) simp_all

lemma generate_sitemap_closed:
  assumes base: "map_of (site_config self) ''base_url'' = Some base"
    and ps: "list_all has_title (products self)" and qs: "list_all has_title (posts self)"
  shows "generate_sitemap now self =
     Inr (\<lparr>loc = base, priority = ''1.0'', changefreq = ''daily'',
            lastmod = strftime_ymd (now 0)\<rparr>
          # map (\<lambda>(k, r). \<lparr>loc = PyStr (detail_url base ''products'' r), priority = ''0.8'',
                             changefreq = ''weekly'', lastmod = strftime_ymd (now k)\<rparr>)
              (enumerate 1 (products self))
          @ map (\<lambda>(k, r). \<lparr>loc = PyStr (detail_url base ''blog'' r), priority = ''0.7'',
                             changefreq = ''monthly'', lastmod = strftime_ymd (now k)\<rparr>)
              (enumerate (1 + length (products self)) (posts self)))"
  by (simp add: generate_sitemap_def base sitemap_urls_closed [OF base ps]
        sitemap_urls_closed [OF base qs] add_sitemap_url_def)






text \<open>The sitemap is generated exactly when no key is missing.\<close>

lemma generate_sitemap_returns:
  "(\<exists>urlset. generate_sitemap now self = Inr urlset) \<longleftrightarrow>
     map_of (site_config self) ''base_url'' \<noteq> None
     \<and> list_all has_title (products self) \<and> list_all has_title (posts self)"
proof
  assume "\<exists>urlset. generate_sitemap now self = Inr urlset"
  then obtain urlset base u1 where base: "map_of (site_config self) ''base_url'' = Some base"
    and u1: "sitemap_urls now (site_config self) ''products'' ''0.8'' ''weekly'' (products self)
           (add_sitemap_url now [] base ''1.0'' ''daily'') = Inr u1"
    and u2: "sitemap_urls now (site_config self) ''blog'' ''0.7'' ''monthly'' (posts self) u1
           = Inr urlset"
    by (auto simp: generate_sitemap_def split: option.splits sum.splits)
  from base sitemap_urls_Inr_titles [OF u1] sitemap_urls_Inr_titles [OF u2]
  show "map_of (site_config self) ''base_url'' \<noteq> None
     \<and> list_all has_title (products self) \<and> list_all has_title (posts self)"
    by simp
next
  assume "map_of (site_config self) ''base_url'' \<noteq> None
     \<and> list_all has_title (products self) \<and> list_all has_title (posts self)"
  then obtain base where "map_of (site_config self) ''base_url'' = Some base"
    and "list_all has_title (products self)" and "list_all has_title (posts self)"
    by auto
  from generate_sitemap_closed [OF this] show "\<exists>urlset. generate_sitemap now self = Inr urlset"
    by blast
qed



subsection \<open>The feed\<close>

lemma rss_items_closed:
  assumes "map_of config ''base_url'' = Some base" and "list_all has_title ps"
  shows "rss_items config ps items = Inr (items @ map (spec_rss_item base) ps)"
  using assms(2)
proof (induction ps arbitrary: items)
  case Nil
  show ?case by simp
next
  case (Cons p ps)
  from Cons.prems have "has_title p" and rest: "list_all has_title ps"
    by simp_all
  then obtain t where t: "map_of p ''title'' = Some t"
    by (auto simp: has_title_def)
  show ?case
    using Cons.IH [OF rest]
    by (simp add: t assms(1) spec_rss_item_def detail_url_def dict_get_def)
qed

text \<open>The feed is generated exactly when no key is missing.\<close>

lemma rss_items_Inr_titles:
  "rss_items config ps items = Inr out \<Longrightarrow> list_all has_title ps"
  by (induction ps arbitrary: items) (auto simp: has_title_def split: option.splits)

lemma generate_rss_returns:
  "(\<exists>ch. generate_rss self = Inr ch) \<longleftrightarrow>
     map_of (site_config self) ''base_url'' \<noteq> None
     \<and> list_all has_title (take 10 (posts self))"
proof
  assume "\<exists>ch. generate_rss self = Inr ch"
  then obtain base items where base: "map_of (site_config self) ''base_url'' = Some base"
    and items: "rss_items (site_config self) (take 10 (posts self)) [] = Inr items"
    by (auto simp: generate_rss_def split: option.splits sum.splits)
  from base rss_items_Inr_titles [OF items]
  show "map_of (site_config self) ''base_url'' \<noteq> None
     \<and> list_all has_title (take 10 (posts self))"
    by simp
next
  assume "map_of (site_config self) ''base_url'' \<noteq> None
     \<and> list_all has_title (take 10 (posts self))"
  then obtain base where base: "map_of (site_config self) ''base_url'' = Some base"
    and titles: "list_all has_title (take 10 (posts self))"
    by auto
  show "\<exists>ch. generate_rss self = Inr ch"
    by (simp add: generate_rss_def base rss_items_closed [OF base titles])
qed



subsection \<open>Pages, and the URLs that point to them\<close>









subsection \<open>Templates\<close>












lemma map_of_dict_update:
  "distinct (map fst other) \<Longrightarrow> map_of (dict_update d other) = map_of d ++ map_of other"
  unfolding dict_update_def
proof (induction other arbitrary: d)
  case Nil
  show ?case by simp
next
  case (Cons kv other)
  obtain k v where kv: "kv = (k, v)"
    by (cases kv)
  from Cons.prems kv have fresh: "k \<notin> fst ` set other" and dist: "distinct (map fst other)"
    by simp_all
  from fresh have none: "map_of other k = None"
    by (simp add: map_of_eq_None_iff)
  have "map_of (fold (\<lambda>(k, v) acc. AList.update k v acc) (kv # other) d)
      = map_of (fold (\<lambda>(k, v) acc. AList.update k v acc) other (AList.update k v d))"
    by (simp add: kv)
  also have "\<dots> = map_of (AList.update k v d) ++ map_of other"
    by (rule Cons.IH [OF dist])
  also have "\<dots> = (map_of d)(k \<mapsto> v) ++ map_of other"
    by (simp only: update_conv')
  also have "\<dots> = map_of d ++ map_of (kv # other)"
    using none by (auto simp: kv map_add_def fun_eq_iff split: option.splits)
  finally show ?case .
qed

lemma keys_dict_update:
  "distinct (map fst other) \<Longrightarrow>
     map fst (dict_update d other)
       = map fst d @ filter (\<lambda>k. k \<notin> set (map fst d)) (map fst other)"
  unfolding dict_update_def
proof (induction other arbitrary: d)
  case Nil
  show ?case by simp
next
  case (Cons kv other)
  obtain k v where kv: "kv = (k, v)"
    by (cases kv)
  from Cons.prems kv have fresh: "k \<notin> set (map fst other)" and dist: "distinct (map fst other)"
    by simp_all
  note ih = Cons.IH [OF dist, of "AList.update k v d"]
  show ?case
  proof (cases "k \<in> set (map fst d)")
    case True
    with ih show ?thesis
      by (simp add: kv update_keys)
  next
    case False
    from fresh have "filter (\<lambda>x. x \<noteq> k \<and> x \<notin> fst ` set d) (map fst other)
        = filter (\<lambda>x. x \<notin> fst ` set d) (map fst other)"
      by (intro filter_cong) auto
    with False ih show ?thesis
      by (simp add: kv update_keys)
  qed
qed


lemma render_collision_example:
  "render_template collision_builder [''page.html'' \<mapsto> ''{{ title }}''] ''page.html''
     [(''title'', PyStr ''Widget'')]
   = Inr (''Site'', [(''title'', PyStr ''Site'')], collision_builder)"
  by code_simp







text \<open>
  C10. A call of \<^verbatim>\<open>render_template\<close> that returns leaves the context of the caller
  updated with the site configuration: the context then has every key of the
  configuration, with the configuration's value also where the context had an entry of
  that key; the other entries keep their values; the keys the context had keep their
  places and the new keys follow in the order of the configuration. The builder, and so
  the site configuration, is as before the call.
\<close>

theorem C10_context_mutated:
  assumes call: "render_template self templates name ctx = Inr (html, ctx', self')"
    and dist: "distinct (map fst (site_config self))"
  shows "self' = self
     \<and> ctx' = dict_update ctx (site_config self)
     \<and> map_of ctx' = map_of ctx ++ map_of (site_config self)
     \<and> fst ` set (site_config self) \<subseteq> fst ` set ctx'
     \<and> (\<forall>k v. map_of (site_config self) k = Some v \<longrightarrow> map_of ctx' k = Some v)
     \<and> (\<forall>k. k \<notin> fst ` set (site_config self) \<longrightarrow> map_of ctx' k = map_of ctx k)
     \<and> map fst ctx' = map fst ctx
          @ filter (\<lambda>k. k \<notin> set (map fst ctx)) (map fst (site_config self))"
proof -
  from call have same: "self' = self" and upd: "ctx' = dict_update ctx (site_config self)"
    by (auto simp: render_template_def Let_def split: option.splits)
  have m: "map_of ctx' = map_of ctx ++ map_of (site_config self)"
    unfolding upd by (rule map_of_dict_update [OF dist])
  have keys: "map fst ctx' = map fst ctx
      @ filter (\<lambda>k. k \<notin> set (map fst ctx)) (map fst (site_config self))"
    unfolding upd by (rule keys_dict_update [OF dist])
  have "fst ` set (site_config self) \<subseteq> set (map fst ctx')"
    unfolding keys by auto
  then have sub: "fst ` set (site_config self) \<subseteq> fst ` set ctx'"
    by simp
  have over: "\<forall>k v. map_of (site_config self) k = Some v \<longrightarrow> map_of ctx' k = Some v"
    by (simp add: m)
  have frame: "\<forall>k. k \<notin> fst ` set (site_config self) \<longrightarrow> map_of ctx' k = map_of ctx k"
    by (simp add: m map_add_def map_of_eq_None_iff [THEN iffD2])
  from same upd m sub over frame keys show ?thesis
    by (intro conjI)
qed

theorem C10_witness:
  "render_template collision_builder [''page.html'' \<mapsto> ''{{ title }}''] ''page.html''
     [(''title'', PyStr ''Widget'')]
   = Inr (''Site'', [(''title'', PyStr ''Site'')], collision_builder)
   \<and> map_of [(''title'', PyStr ''Site'')] ''title'' = Some (PyStr ''Site'')
   \<and> map fst [(''title'', PyStr ''Site'')] = [''title'']"
proof -
  have dist: "distinct (map fst (site_config collision_builder))"
    by (simp add: collision_builder_def)
  from C10_context_mutated [OF render_collision_example dist] render_collision_example
  show ?thesis
    by (simp add: collision_builder_def)
qed

end
